theory Spec2Isabelle
  imports Main "HOL-Library.Multiset" "HOL-Library.Extended_Nat"
begin

section \<open>Fragment Sorter (core/src/utils/sorting.js)\<close>

text \<open>
  File names are JavaScript strings, modelled as \<^typ>\<open>string\<close>.  The host function
  \<^verbatim>\<open>String.prototype.localeCompare\<close> depends on the collation of the host's locale; it is
  not code of the repository and is a parameter \<open>lc\<close> of every definition that reaches it
  (negative: first argument sorts first, positive: second argument sorts first).
\<close>

definition is_digit :: "char \<Rightarrow> bool" where
  "is_digit c \<longleftrightarrow> (48::nat) \<le> of_char c \<and> of_char c \<le> (57::nat)"

text \<open>\<^verbatim>\<open>/^\d/.test(a)\<close>: the name starts with one of the characters 0 to 9.\<close>

definition startsWithNumber :: "string \<Rightarrow> bool" where
  "startsWithNumber a = (case a of [] \<Rightarrow> False | c # _ \<Rightarrow> is_digit c)"

text \<open>\<^verbatim>\<open>a.match(/^\d+/)[0]\<close>: the leading run of digits.\<close>

definition leadingDigits :: "string \<Rightarrow> string" where
  "leadingDigits a = takeWhile is_digit a"

text \<open>
  A JavaScript number that is a non-negative integer or \<^verbatim>\<open>Infinity\<close> is an \<^typ>\<open>enat\<close>.
  \<open>to_number n\<close> is the number value of the integer \<open>n\<close>: \<open>n\<close> itself below 2^53, from
  there on \<open>n\<close> rounded to 53 significant bits, a tie going to the even neighbour, and
  \<^verbatim>\<open>Infinity\<close> once the rounded value reaches 2^1024.
\<close>

function bit_length :: "nat \<Rightarrow> nat" where
  "bit_length n = (if n = 0 then 0 else Suc (bit_length (n div 2)))"
  by pat_completeness auto
termination
  by (relation "measure (\<lambda>n. n)") auto

definition to_number :: "nat \<Rightarrow> enat" where
  "to_number n =
     (if n < 2 ^ 53 then enat n
      else (let e = bit_length n - 53;
                q = n div 2 ^ e;
                r = n mod 2 ^ e;
                q' = (if 2 ^ e < 2 * r \<or> (2 * r = 2 ^ e \<and> odd q) then q + 1 else q);
                v = q' * 2 ^ e
            in if 2 ^ 1024 \<le> v then \<infinity> else enat v))"

text \<open>
  \<^verbatim>\<open>parseInt(ds, 10)\<close> on a run of decimal digits: the number value of the integer that the
  digits write.  (For a run of more than 20 digits the language lets an implementation read the
  digits after the 20th as zeros; the model rounds the whole run, as V8 does.)
\<close>

definition digits_value :: "string \<Rightarrow> nat" where
  "digits_value ds = foldl (\<lambda>n c. 10 * n + (of_char c - 48)) 0 ds"

definition parseInt10 :: "string \<Rightarrow> enat" where
  "parseInt10 ds = to_number (digits_value ds)"

text \<open>
  \<^verbatim>\<open>aNum - bNum\<close> as the sort reads it: the sort uses the sign of what the comparator returns
  and nothing else, and takes \<^verbatim>\<open>NaN\<close>, which \<^verbatim>\<open>Infinity - Infinity\<close> is, for 0.  For two
  finite numbers the model returns the exact difference; the host rounds it to a number of the
  same sign.
\<close>

definition number_minus :: "enat \<Rightarrow> enat \<Rightarrow> int" where
  "number_minus a b =
     (if a = \<infinity> \<and> b = \<infinity> then 0
      else if a = \<infinity> then 1
      else if b = \<infinity> then - 1
      else int (the_enat a) - int (the_enat b))"

text \<open>The comparator passed to \<^verbatim>\<open>files.sort\<close> in \<^verbatim>\<open>sortLibraryFiles\<close>.\<close>

definition compareLibraryFiles :: "(string \<Rightarrow> string \<Rightarrow> int) \<Rightarrow> string \<Rightarrow> string \<Rightarrow> int" where
  "compareLibraryFiles lc a b =
     (let aStartsWithNumber = startsWithNumber a;
          bStartsWithNumber = startsWithNumber b
      in if aStartsWithNumber \<and> bStartsWithNumber
         then (let aNum = parseInt10 (leadingDigits a);
                   bNum = parseInt10 (leadingDigits b)
               in number_minus aNum bNum)
         else if aStartsWithNumber \<and> \<not> bStartsWithNumber then - 1
         else if \<not> aStartsWithNumber \<and> bStartsWithNumber then 1
         else lc a b)"

text \<open>
  \<^verbatim>\<open>Array.prototype.sort(comparefn)\<close> is a stable sort: an element moves behind a later one
  only when the comparator returns a positive number for the pair.  For a consistent comparator
  every stable sort returns the same array, here computed by insertion from the right.
\<close>

fun array_insert :: "('a \<Rightarrow> 'a \<Rightarrow> int) \<Rightarrow> 'a \<Rightarrow> 'a list \<Rightarrow> 'a list" where
  "array_insert cmp x [] = [x]"
| "array_insert cmp x (y # ys) =
     (if cmp x y \<le> 0 then x # y # ys else y # array_insert cmp x ys)"

definition array_sort :: "('a \<Rightarrow> 'a \<Rightarrow> int) \<Rightarrow> 'a list \<Rightarrow> 'a list" where
  "array_sort cmp xs = foldr (array_insert cmp) xs []"

definition sortLibraryFiles :: "(string \<Rightarrow> string \<Rightarrow> int) \<Rightarrow> string list \<Rightarrow> string list" where
  "sortLibraryFiles lc files = array_sort (compareLibraryFiles lc) files"

text \<open>
  \<^verbatim>\<open>sortLibraryFilesWithDependencies(files, libraryOrder = null)\<close>: \<open>None\<close> is a missing
  (\<^verbatim>\<open>null\<close> or \<^verbatim>\<open>undefined\<close>) second argument, \<open>Some order\<close> an array.
\<close>

definition sortLibraryFilesWithDependencies ::
  "(string \<Rightarrow> string \<Rightarrow> int) \<Rightarrow> string list \<Rightarrow> string list option \<Rightarrow> string list" where
  "sortLibraryFilesWithDependencies lc files libraryOrder =
     (case libraryOrder of
        None \<Rightarrow> sortLibraryFiles lc files
      | Some order \<Rightarrow>
          if length order > 0
          then (let orderedFiles = order;
                    missingFiles = filter (\<lambda>file. file \<notin> set order) files
                in orderedFiles @ sortLibraryFiles lc missingFiles)
          else sortLibraryFiles lc files)"

text \<open>
  Comparison of strings by code units, as \<^verbatim>\<open>Array.prototype.sort()\<close> without a comparator
  and the operator \<^verbatim>\<open><\<close> on strings do.
\<close>

fun codeunit_compare :: "string \<Rightarrow> string \<Rightarrow> int" where
  "codeunit_compare [] [] = 0"
| "codeunit_compare [] (y # ys) = - 1"
| "codeunit_compare (x # xs) [] = 1"
| "codeunit_compare (x # xs) (y # ys) =
     (if (of_char x :: nat) < of_char y then - 1
      else if (of_char y :: nat) < of_char x then 1
      else codeunit_compare xs ys)"

subsection \<open>The sorter on the store\<close>

text \<open>
  \<^verbatim>\<open>Array.prototype.sort\<close> sorts the array it is called on and returns that same array, so
  what the sorter does to its arguments is a matter of the store.  A store is the list of the
  arrays allocated so far and a reference is an index into it; \<^verbatim>\<open>[...xs]\<close>,
  \<^verbatim>\<open>filter\<close> and an array literal allocate a new array.
\<close>

type_synonym ref = nat
type_synonym store = "string list list"

definition alloc :: "store \<Rightarrow> string list \<Rightarrow> ref \<times> store" where
  "alloc h xs = (length h, h @ [xs])"

definition sortLibraryFiles_store ::
  "(string \<Rightarrow> string \<Rightarrow> int) \<Rightarrow> ref \<Rightarrow> store \<Rightarrow> ref \<times> store" where
  "sortLibraryFiles_store lc files h =
     (files, h[files := array_sort (compareLibraryFiles lc) (h ! files)])"

definition sortLibraryFilesWithDependencies_store ::
  "(string \<Rightarrow> string \<Rightarrow> int) \<Rightarrow> ref \<Rightarrow> ref option \<Rightarrow> store \<Rightarrow> ref \<times> store" where
  "sortLibraryFilesWithDependencies_store lc files libraryOrder h =
     (case libraryOrder of
        None \<Rightarrow> sortLibraryFiles_store lc files h
      | Some order \<Rightarrow>
          if length (h ! order) > 0
          then (let (orderedFiles, h1) = alloc h (h ! order);
                    (missingFiles, h2) =
                       alloc h1 (filter (\<lambda>file. file \<notin> set (h1 ! order)) (h1 ! files));
                    (sorted, h3) = sortLibraryFiles_store lc missingFiles h2
                in alloc h3 (h3 ! orderedFiles @ h3 ! sorted))
          else sortLibraryFiles_store lc files h)"

section \<open>Simulation engine (core/src/simulator/engine.js)\<close>

subsection \<open>Values, errors and the simulator object\<close>

text \<open>
  The JavaScript values that reach the storage interface: \<^verbatim>\<open>undefined\<close>, \<^verbatim>\<open>null\<close>,
  booleans and strings.
\<close>

datatype js_value = Undefined | Null | Bool bool | Str string

text \<open>\<^verbatim>\<open>v || ''\<close> followed by \<^verbatim>\<open>String(...)\<close>: a falsy value becomes the empty string.\<close>

fun truthy :: "js_value \<Rightarrow> bool" where
  "truthy Undefined = False"
| "truthy Null = False"
| "truthy (Bool b) = b"
| "truthy (Str s) = (s \<noteq> [])"

fun ToString :: "js_value \<Rightarrow> string" where
  "ToString Undefined = ''undefined''"
| "ToString Null = ''null''"
| "ToString (Bool b) = (if b then ''true'' else ''false'')"
| "ToString (Str s) = s"

datatype js_error =
    ReferenceError string
  | TypeError string
  | SyntaxError string
  | Error string

fun message :: "js_error \<Rightarrow> string" where
  "message (ReferenceError m) = m"
| "message (TypeError m) = m"
| "message (SyntaxError m) = m"
| "message (Error m) = m"

text \<open>The argument of \<^verbatim>\<open>jsonHttpRequest\<close> and the entry that \<^verbatim>\<open>handleHttpRequest\<close> logs.\<close>

record http_config =
  cfg_method :: "string option"
  cfg_url :: string
  cfg_headers :: js_value
  cfg_body :: js_value

record http_request =
  req_timestamp :: nat
  req_method :: string
  req_url :: string
  req_headers :: js_value
  req_body :: js_value

record http_response =
  resp_success :: bool
  resp_status :: nat
  resp_data_message :: string
  resp_data_timestamp :: nat
  resp_data_method :: string
  resp_content_type :: string

text \<open>An \<^verbatim>\<open>async\<close> function returns a promise: a \<^verbatim>\<open>throw\<close> in its body rejects it.\<close>

datatype 'a promise = Resolved 'a | Rejected js_error

text \<open>
  The fields of \<^verbatim>\<open>VocallsSimulator\<close>: \<open>stats_httpRequests\<close> is the counter
  \<^verbatim>\<open>this.stats.httpRequests\<close> and \<open>httpRequests\<close> the log \<^verbatim>\<open>this.httpRequests\<close>.
  \<open>now\<close> is the host's clock in milliseconds (\<^verbatim>\<open>Date.now()\<close>); it is not a field of
  the class, but travels with the state.  What \<^verbatim>\<open>this.log\<close> prints on the console is not
  modelled.
\<close>

record simulator =
  httpMode :: string
  storageMode :: string
  environment :: string
  verbose :: bool
  filesLoaded :: nat
  stats_httpRequests :: nat
  storageOps :: nat
  startTime :: "nat option"
  endTime :: "nat option"
  memoryStorage :: "string \<rightharpoonup> string"
  httpRequests :: "http_request list"
  now :: nat

record options =
  opt_httpMode :: "string option"
  opt_storageMode :: "string option"
  opt_environment :: "string option"
  opt_verbose :: bool

text \<open>\<^verbatim>\<open>options.x || d\<close> for a string option: missing and empty both give the default.\<close>

definition or_default :: "string option \<Rightarrow> string \<Rightarrow> string" where
  "or_default v d = (case v of None \<Rightarrow> d | Some s \<Rightarrow> if s = [] then d else s)"

definition VocallsSimulator :: "options \<Rightarrow> nat \<Rightarrow> simulator" where
  "VocallsSimulator opts t =
     \<lparr> httpMode = or_default (opt_httpMode opts) ''stub'',
       storageMode = or_default (opt_storageMode opts) ''memory'',
       environment = or_default (opt_environment opts) ''acc'',
       verbose = opt_verbose opts,
       filesLoaded = 0, stats_httpRequests = 0, storageOps = 0,
       startTime = None, endTime = None,
       memoryStorage = Map.empty, httpRequests = [], now = t \<rparr>"

subsection \<open>HTTP and storage handlers\<close>

definition createStubResponse :: "simulator \<Rightarrow> http_config \<Rightarrow> http_response promise" where
  "createStubResponse sim config =
     Resolved \<lparr> resp_success = True, resp_status = 200,
                resp_data_message = ''Stubbed response for '' @ cfg_url config,
                resp_data_timestamp = now sim,
                resp_data_method = or_default (cfg_method config) ''GET'',
                resp_content_type = ''application/json'' \<rparr>"

definition handleHttpRequest ::
  "http_config \<Rightarrow> simulator \<Rightarrow> http_response promise \<times> simulator" where
  "handleHttpRequest config sim =
     (let sim1 = sim\<lparr>stats_httpRequests := stats_httpRequests sim + 1\<rparr>;
          request = \<lparr> req_timestamp = now sim1,
                      req_method = or_default (cfg_method config) ''GET'',
                      req_url = cfg_url config,
                      req_headers = cfg_headers config,
                      req_body = cfg_body config \<rparr>;
          sim2 = sim1\<lparr>httpRequests := httpRequests sim1 @ [request]\<rparr>
      in if httpMode sim2 = ''stub''
         then (createStubResponse sim2 config, sim2)
         else (Rejected (Error ''Real HTTP mode not implemented in this demo''), sim2))"

record read_result =
  read_success :: bool
  read_text :: "string option"
  read_error :: "string option"

record write_result =
  write_success :: bool
  write_error :: "string option"

definition handleStorageRead :: "string \<Rightarrow> simulator \<Rightarrow> read_result \<times> simulator" where
  "handleStorageRead filePath sim =
     (let sim1 = sim\<lparr>storageOps := storageOps sim + 1\<rparr>
      in if storageMode sim1 = ''memory''
         then (let content = memoryStorage sim1 filePath
               in (\<lparr> read_success = (content \<noteq> None),
                     read_text = (case content of None \<Rightarrow> None
                                  | Some c \<Rightarrow> if c = [] then None else Some c),
                     read_error = (if content = None then Some ''file_not_found'' else None) \<rparr>,
                   sim1))
         else (\<lparr> read_success = False, read_text = None,
                 read_error = Some ''disk_storage_not_implemented'' \<rparr>, sim1))"

definition handleStorageWrite ::
  "string \<Rightarrow> js_value \<Rightarrow> simulator \<Rightarrow> write_result \<times> simulator" where
  "handleStorageWrite filePath content sim =
     (let sim1 = sim\<lparr>storageOps := storageOps sim + 1\<rparr>
      in if storageMode sim1 = ''memory''
         then (\<lparr> write_success = True, write_error = None \<rparr>,
               sim1\<lparr>memoryStorage := (memoryStorage sim1)
                       (filePath \<mapsto> ToString (if truthy content then content else Str [])) \<rparr>)
         else (\<lparr> write_success = False,
                 write_error = Some ''disk_storage_not_implemented'' \<rparr>, sim1))"

subsection \<open>Fragments and their evaluation\<close>

text \<open>
  \<^verbatim>\<open>vm.Script\<close> and \<^verbatim>\<open>runInNewContext\<close> belong to the host.  What the engine's code
  needs of them is modelled on fragments reduced to their effects on the global scope: a
  function declaration, a \<^verbatim>\<open>var\<close> declaration with an initialiser, a call without
  arguments of a global function other than \<^verbatim>\<open>jsonHttpRequest\<close> and \<^verbatim>\<open>httpRequest\<close>
  (the body of a declared function is not modelled), a read of a global variable, a computation
  that keeps the evaluation busy for a number of milliseconds, and a call of
  \<^verbatim>\<open>jsonHttpRequest\<close> whose promise is given a handler for either outcome
  (\<^verbatim>\<open>.then(success, error)\<close>), so that no rejection is left unhandled; the handlers do
  nothing.  A file that does not parse makes \<^verbatim>\<open>new vm.Script\<close> throw.
\<close>

datatype stmt =
    FunctionDecl string
  | VarDecl string
  | CallFunction string
  | ReadVar string
  | Busy nat
  | HttpRequest http_config

datatype fragment = Unparsable string | Script "stmt list"

text \<open>
  What a global name is bound to: a function that can be called, a constructor that throws the
  given \<^verbatim>\<open>TypeError\<close> when it is called without \<^verbatim>\<open>new\<close>, another value, or
  \<^verbatim>\<open>undefined\<close>.
\<close>

datatype binding = Callable | NeedsNew string | Value | Undef

definition builtin_constructor :: "string \<Rightarrow> string \<times> binding" where
  "builtin_constructor name =
     (name, NeedsNew (''Constructor '' @ name @ '' requires '' @ [CHR 0x27] @ ''new'' @ [CHR 0x27]))"

definition class_constructor :: "string \<Rightarrow> string \<Rightarrow> string \<times> binding" where
  "class_constructor name class_name =
     (name, NeedsNew (''Class constructor '' @ class_name @ '' cannot be invoked without '' @
                      [CHR 0x27] @ ''new'' @ [CHR 0x27]))"

text \<open>
  The sandbox object: its properties, and the variables of \<^verbatim>\<open>context.session\<close>.  Every
  \<^verbatim>\<open>runInNewContext(sandbox, ...)\<close> of a run receives the same object, so the properties a
  fragment adds are there for the next one.
\<close>

record sandbox =
  bindings :: "string \<rightharpoonup> binding"
  session_variables :: "(string \<times> js_value) list"

datatype dir_entry = Absent | NotADirectory | Directory "string list"

text \<open>
  The world around the engine: the files under the project path by relative path, the entry
  \<^verbatim>\<open>src/globalLibraries/active\<close>, the content of \<^verbatim>\<open>project.json\<close> (\<open>None\<close> when it is
  missing or not JSON, otherwise its \<^verbatim>\<open>libraryOrder\<close> field, \<open>None\<close> when the field is
  absent), the globals that a new context binds by itself, and the milliseconds that a run
  spends outside the evaluation of fragments: looking for files, reading them, reading the
  directory and \<^verbatim>\<open>project.json\<close>, compiling.  A \<^verbatim>\<open>project.json\<close> is taken to hold a JSON
  object; for one that holds \<^verbatim>\<open>null\<close> the engine throws a \<^verbatim>\<open>TypeError\<close> at
  \<^verbatim>\<open>config.libraryOrder\<close>, a case that the type of \<open>projectJson\<close> leaves out.
\<close>

record host =
  files :: "string \<rightharpoonup> fragment"
  libsDir :: dir_entry
  projectJson :: "string list option option"
  intrinsics :: "string \<rightharpoonup> binding"
  io_time :: nat

definition createSandbox :: "simulator \<Rightarrow> sandbox" where
  "createSandbox sim =
     \<lparr> bindings = map_of
         ([(''context'', Value)] @
          map (\<lambda>n. (n, Callable))
            [''logInfo'', ''logWarn'', ''logError'', ''log_debug'',
             ''jsonHttpRequest'', ''httpRequest''] @
          [(''Storage'', Value), (''nowUTC'', Callable),
           (''Date'', Callable), (''Math'', Value), (''JSON'', Value)] @
          map (\<lambda>n. (n, Callable))
            [''String'', ''Number'', ''Boolean'', ''Array'', ''Object'', ''RegExp'',
             ''Error'', ''TypeError'', ''ReferenceError'', ''SyntaxError''] @
          map builtin_constructor [''Map'', ''Set'', ''WeakMap'', ''WeakSet''] @
          [class_constructor ''Promise'' ''VocallsPromise''] @
          map (\<lambda>n. (n, Undef))
            [''var'', ''function'',
             ''global'', ''process'', ''require'', ''module'', ''exports'',
             ''__dirname'', ''__filename'', ''console'',
             ''setTimeout'', ''setInterval'', ''clearTimeout'', ''clearInterval'']),
       session_variables =
         [(''VOCALLS_ENV'', Str (environment sim)), (''SIMULATION_MODE'', Str (httpMode sim))] \<rparr>"

text \<open>A global name resolves in the sandbox first, then among the context's own globals.\<close>

definition resolve :: "host \<Rightarrow> sandbox \<Rightarrow> string \<Rightarrow> binding option" where
  "resolve h sb x = (case bindings sb x of Some b \<Rightarrow> Some b | None \<Rightarrow> intrinsics h x)"

text \<open>
  Declarations are instantiated before the first statement runs: a declared function is bound
  at once, a declared variable is created as \<^verbatim>\<open>undefined\<close> unless the name exists.
\<close>

fun hoist :: "stmt list \<Rightarrow> sandbox \<Rightarrow> sandbox" where
  "hoist [] sb = sb"
| "hoist (FunctionDecl f # ss) sb = hoist ss (sb\<lparr>bindings := (bindings sb)(f \<mapsto> Callable)\<rparr>)"
| "hoist (VarDecl x # ss) sb =
     hoist ss (if bindings sb x = None then sb\<lparr>bindings := (bindings sb)(x \<mapsto> Undef)\<rparr> else sb)"
| "hoist (_ # ss) sb = hoist ss sb"

text \<open>The \<^verbatim>\<open>timeout: 5000\<close> that \<^verbatim>\<open>loadScript\<close> passes to each \<^verbatim>\<open>runInNewContext\<close>.\<close>

definition script_timeout :: nat where
  "script_timeout = 5000"

text \<open>
  One statement, with the milliseconds the current evaluation has used so far.  The host
  interrupts an evaluation at the moment it has run for the timeout.  The timeout counts the
  evaluation of the fragment alone, not the time it takes to find, read and compile it.
\<close>

fun exec_stmt ::
  "host \<Rightarrow> stmt \<Rightarrow> simulator \<times> sandbox \<times> nat \<Rightarrow> js_error + simulator \<times> sandbox \<times> nat" where
  "exec_stmt h (FunctionDecl f) (sim, sb, used) = Inr (sim, sb, used)"
| "exec_stmt h (VarDecl x) (sim, sb, used) =
     Inr (sim, sb\<lparr>bindings := (bindings sb)(x \<mapsto> Value)\<rparr>, used)"
| "exec_stmt h (CallFunction f) (sim, sb, used) =
     (case resolve h sb f of
        None \<Rightarrow> Inl (ReferenceError (f @ '' is not defined''))
      | Some Callable \<Rightarrow> Inr (sim, sb, used)
      | Some (NeedsNew m) \<Rightarrow> Inl (TypeError m)
      | Some _ \<Rightarrow> Inl (TypeError (f @ '' is not a function'')))"
| "exec_stmt h (ReadVar x) (sim, sb, used) =
     (case resolve h sb x of
        None \<Rightarrow> Inl (ReferenceError (x @ '' is not defined''))
      | Some _ \<Rightarrow> Inr (sim, sb, used))"
| "exec_stmt h (Busy n) (sim, sb, used) =
     (if used + n > script_timeout
      then Inl (Error ''Script execution timed out after 5000ms'')
      else Inr (sim\<lparr>now := now sim + n\<rparr>, sb, used + n))"
| "exec_stmt h (HttpRequest config) (sim, sb, used) =
     Inr (snd (handleHttpRequest config sim), sb, used)"

fun exec_stmts ::
  "host \<Rightarrow> stmt list \<Rightarrow> simulator \<times> sandbox \<times> nat \<Rightarrow> js_error + simulator \<times> sandbox \<times> nat" where
  "exec_stmts h [] st = Inr st"
| "exec_stmts h (s # ss) st =
     (case exec_stmt h s st of Inl e \<Rightarrow> Inl e | Inr st' \<Rightarrow> exec_stmts h ss st')"

text \<open>\<^verbatim>\<open>new vm.Script(code)\<close> followed by \<^verbatim>\<open>script.runInNewContext(sandbox, {timeout: 5000})\<close>.\<close>

definition runInNewContext ::
  "host \<Rightarrow> fragment \<Rightarrow> simulator \<times> sandbox \<Rightarrow> js_error + simulator \<times> sandbox" where
  "runInNewContext h code st =
     (case code of
        Unparsable m \<Rightarrow> Inl (SyntaxError m)
      | Script ss \<Rightarrow>
          (case exec_stmts h ss (fst st, hoist ss (snd st), 0) of
             Inl e \<Rightarrow> Inl e
           | Inr (sim, sb, used) \<Rightarrow> Inr (sim, sb)))"

subsection \<open>Loading a project\<close>

text \<open>
  \<^verbatim>\<open>loadScript\<close>: a missing file is skipped; anything thrown while the file is compiled or
  evaluated is thrown again as \<^verbatim>\<open>Error in <path>: <message>\<close>.
\<close>

definition loadScript ::
  "host \<Rightarrow> string \<Rightarrow> simulator \<times> sandbox \<Rightarrow> js_error + simulator \<times> sandbox" where
  "loadScript h relativePath st =
     (case files h relativePath of
        None \<Rightarrow> Inr st
      | Some code \<Rightarrow>
          (case runInNewContext h code st of
             Inl err \<Rightarrow> Inl (Error (''Error in '' @ relativePath @ '': '' @ message err))
           | Inr (sim, sb) \<Rightarrow> Inr (sim\<lparr>filesLoaded := filesLoaded sim + 1\<rparr>, sb)))"

text \<open>\<^verbatim>\<open>loadProjectConfig\<close>: the \<^verbatim>\<open>libraryOrder\<close> field of the configuration it returns.\<close>

definition loadProjectConfig :: "host \<Rightarrow> string list option" where
  "loadProjectConfig h = (case projectJson h of None \<Rightarrow> Some [] | Some config \<Rightarrow> config)"

definition endsWith :: "string \<Rightarrow> string \<Rightarrow> bool" where
  "endsWith s suffix \<longleftrightarrow>
     length suffix \<le> length s \<and> drop (length s - length suffix) s = suffix"

definition getLibraryFiles :: "host \<Rightarrow> string list" where
  "getLibraryFiles h =
     (case libsDir h of
        Directory names \<Rightarrow>
          array_sort codeunit_compare (filter (\<lambda>file. endsWith file ''.js'') names)
      | _ \<Rightarrow> [])"

text \<open>
  The library part of \<^verbatim>\<open>loadProjectFiles\<close>:
  \<^verbatim>\<open>config.libraryOrder || await this.getLibraryFiles(libsDir)\<close>.  An array is truthy, the
  empty one too.
\<close>

definition simulatorLibraryOrder :: "host \<Rightarrow> string list" where
  "simulatorLibraryOrder h =
     (case loadProjectConfig h of
        Some libraryOrder \<Rightarrow> libraryOrder
      | None \<Rightarrow> getLibraryFiles h)"

definition loadOrder :: "host \<Rightarrow> string list" where
  "loadOrder h =
     [''src/globalCode.js'', ''src/globalVariables.js''] @
     (if libsDir h \<noteq> Absent
      then map (\<lambda>lib. ''src/globalLibraries/active/'' @ lib) (simulatorLibraryOrder h)
      else []) @
     [''src/callScripts/main.js'']"

fun loadScripts ::
  "host \<Rightarrow> string list \<Rightarrow> simulator \<times> sandbox \<Rightarrow> js_error + simulator \<times> sandbox" where
  "loadScripts h [] st = Inr st"
| "loadScripts h (file # rest) st =
     (case loadScript h file st of Inl e \<Rightarrow> Inl e | Inr st' \<Rightarrow> loadScripts h rest st')"

text \<open>
  \<^verbatim>\<open>loadProjectFiles\<close>.  The time that the run spends on files passes on the clock as
  well; the model lets all of it pass before the first fragment is evaluated.
\<close>

definition loadProjectFiles ::
  "host \<Rightarrow> simulator \<times> sandbox \<Rightarrow> js_error + simulator \<times> sandbox" where
  "loadProjectFiles h st =
     loadScripts h (loadOrder h) ((fst st)\<lparr>now := now (fst st) + io_time h\<rparr>, snd st)"






record report =
  report_executionTime :: nat
  report_filesLoaded :: nat
  report_httpRequests :: nat
  report_storageOps :: nat
  report_sessionState :: "(string \<times> js_value) list"
  report_httpLog :: "http_request list"

text \<open>
  \<^verbatim>\<open>execute\<close>: a run either throws, and then returns no report, or returns the report made
  of the statistics at its end.
\<close>

definition execute :: "host \<Rightarrow> simulator \<Rightarrow> js_error + report \<times> simulator" where
  "execute h sim =
     (let sim1 = sim\<lparr>startTime := Some (now sim)\<rparr>;
          sandbox = createSandbox sim1
      in case loadProjectFiles h (sim1, sandbox) of
           Inl e \<Rightarrow> Inl e
         | Inr (sim2, sandbox2) \<Rightarrow>
             (let sim3 = sim2\<lparr>endTime := Some (now sim2)\<rparr>
              in Inr (\<lparr> report_executionTime = the (endTime sim3) - the (startTime sim3),
                        report_filesLoaded = filesLoaded sim3,
                        report_httpRequests = stats_httpRequests sim3,
                        report_storageOps = storageOps sim3,
                        report_sessionState = session_variables sandbox2,
                        report_httpLog = httpRequests sim3 \<rparr>, sim3)))"

section \<open>Dialect Compliance Scanner (src/unnamed/part_002, imported as core/src/utils/validation.js)\<close>

subsection \<open>The regular expression literals as they are written\<close>

text \<open>
  The file writes every backslash of its regular expressions and of its line separator twice:
  \<^verbatim>\<open>/\\b(let|const)\\s+/\<close>, \<^verbatim>\<open>code.split('\\n')\<close>.  The embedding keeps the text as it
  is.  \<open>bs\<close> is the backslash character.
\<close>

abbreviation bs :: char where
  "bs \<equiv> CHR 0x5C"

text \<open>
  How the host reads a regular expression literal (ECMAScript, RegularExpressionLiteral): after
  the opening slash, a backslash takes the next character with it, a bracket opens a class that
  runs to the next unescaped closing bracket, and the first slash outside a class ends the
  body.  The result is the body and the text after the closing slash.
\<close>

fun regex_literal_body :: "bool \<Rightarrow> string \<Rightarrow> (string \<times> string) option" where
  "regex_literal_body in_class [] = None"
| "regex_literal_body in_class [c] =
     (if c = CHR ''/'' \<and> \<not> in_class then Some ([], []) else None)"
| "regex_literal_body in_class (c # d # cs) =
     (if c = bs
      then map_option (\<lambda>(body, rest). (c # d # body, rest)) (regex_literal_body in_class cs)
      else if in_class
      then map_option (\<lambda>(body, rest). (c # body, rest))
             (regex_literal_body (c \<noteq> CHR '']'') (d # cs))
      else if c = CHR ''/'' then Some ([], d # cs)
      else map_option (\<lambda>(body, rest). (c # body, rest))
             (regex_literal_body (c = CHR ''['') (d # cs)))"

text \<open>
  A body is compiled as a pattern when the file is parsed.  One of the checks: every group
  that opens is closed (otherwise \<^verbatim>\<open>SyntaxError: Invalid regular expression: Unterminated group\<close>),
  where an escaped character and the content of a class open and close nothing.  The arguments
  are the number of open groups and whether a class is open.
\<close>

fun groups_closed :: "nat \<Rightarrow> bool \<Rightarrow> string \<Rightarrow> bool" where
  "groups_closed depth in_class [] = (depth = 0)"
| "groups_closed depth in_class [c] =
     (if in_class \<or> c = bs then depth = 0
      else if c = CHR ''('' then False
      else if c = CHR '')'' then depth = 1
      else depth = 0)"
| "groups_closed depth in_class (c # d # cs) =
     (if c = bs then groups_closed depth in_class cs
      else if in_class then groups_closed depth (c \<noteq> CHR '']'') (d # cs)
      else if c = CHR ''['' then groups_closed depth True (d # cs)
      else if c = CHR ''('' then groups_closed (Suc depth) False (d # cs)
      else if c = CHR '')'' then (depth > 0 \<and> groups_closed (depth - 1) False (d # cs))
      else groups_closed depth False (d # cs))"

text \<open>
  A piece of source text meant as one regular expression literal is one when the host reads a
  body up to the last slash of the text, leaving nothing but flag letters, and the body
  compiles.
\<close>

definition is_flag :: "char \<Rightarrow> bool" where
  "is_flag c \<longleftrightarrow> c \<in> set ''dgimsuvy''"

definition literal_accepted :: "string \<Rightarrow> bool" where
  "literal_accepted lit =
     (case lit of
        [] \<Rightarrow> False
      | c # cs \<Rightarrow>
          c = CHR ''/'' \<and>
          (case regex_literal_body False cs of
             None \<Rightarrow> False
           | Some (body, rest) \<Rightarrow> body \<noteq> [] \<and> list_all is_flag rest \<and> groups_closed 0 False body))"

text \<open>The table \<^verbatim>\<open>forbiddenPatterns\<close>: each literal as written, with its message.\<close>

definition forbiddenPatterns :: "(string \<times> string) list" where
  "forbiddenPatterns =
   [(''/'' @ bs # bs # ''basync'' @ bs # bs # ''b|'' @ bs # bs # ''bawait'' @ bs # bs # ''b/'',
       ''async/await not allowed in Vocalls ES5.1''),
    (''/'' @ bs # bs # ''bclass'' @ bs # bs # ''s+['' @ bs # bs # ''w$]+/'',
       ''ES6 classes not allowed in Vocalls''),
    (''/'' @ bs # bs # ''bimport'' @ bs # bs # ''s|export'' @ bs # bs # ''s+/'',
       ''import/export not allowed in Vocalls''),
    (''/'' @ bs # bs # ''brequire'' @ bs # bs # ''s*'' @ bs # bs # ''(/'',
       ''require() not allowed in Vocalls runtime''),
    (''/'' @ bs # bs # ''b(let|const)'' @ bs # bs # ''s+/'',
       ''let/const not allowed, use var in Vocalls ES5.1''),
    (''/'' @ bs # bs # ''.catch'' @ bs # bs # ''s*'' @ bs # bs # ''(/'',
       ''.catch() not supported in Vocalls (use .then(success, error))''),
    (''/'' @ bs # bs # ''?'' @ bs # bs # ''?/'',
       ''nullish coalescing (??) not allowed in ES5.1''),
    (''/'' @ bs # bs # ''?'' @ bs # bs # ''./'',
       ''optional chaining (?.) not allowed in ES5.1''),
    (''/'' @ bs # bs # ''beval'' @ bs # bs # ''s*'' @ bs # bs # ''(|new'' @ bs # bs #
       ''s+Function'' @ bs # bs # ''s*'' @ bs # bs # ''(/'',
       ''eval/Function constructor not allowed in Vocalls''),
    (''/'' @ bs # bs # ''bconsole'' @ bs # bs # ''.(log|info|warn|error)'' @ bs # bs # ''s*'' @
       bs # bs # ''(/'',
       ''console.* not allowed, use logInfo/logWarn/logError''),
    (''/'' @ bs # bs # ''bsetTimeout'' @ bs # bs # ''s*'' @ bs # bs # ''(|'' @ bs # bs #
       ''bsetInterval'' @ bs # bs # ''s*'' @ bs # bs # ''(/'',
       ''setTimeout/setInterval not available in Vocalls''),
    (''/'' @ bs # bs # ''bPromise'' @ bs # bs # ''.all'' @ bs # bs # ''s*'' @ bs # bs # ''(|'' @
       bs # bs # ''bPromise'' @ bs # bs # ''.race'' @ bs # bs # ''s*'' @ bs # bs # ''(/'',
       ''Promise.all/race not supported in Vocalls ES5.1''),
    (''/`[^`]*`/'',
       ''Template literals not allowed in ES5.1''),
    (''/='' @ bs # bs # ''s*>/'',
       ''Arrow functions not allowed in ES5.1''),
    (''/'' @ bs # bs # ''bfor'' @ bs # bs # ''s*'' @ bs # bs # ''('' @ bs # bs #
       ''s*(?:let|const)/'',
       ''for...of/for...in with let/const not allowed in ES5.1''),
    (''/'' @ bs # bs # ''.'' @ bs # bs # ''.'' @ bs # bs # ''.|'' @ bs # bs # ''['' @ bs # bs #
       ''.'' @ bs # bs # ''.'' @ bs # bs # ''.]/'',
       ''Spread operator not allowed in ES5.1''),
    (''/'' @ bs # bs # ''{[^}]*:'' @ bs # bs # ''s*[^}]*'' @ bs # bs # ''}'' @ bs # bs # ''s*=/'',
       ''Destructuring assignment not allowed in ES5.1''),
    (''/'' @ bs # bs # ''[[^'' @ bs # bs # '']]*'' @ bs # bs # '']'' @ bs # bs # ''s*=/'',
       ''Array destructuring not allowed in ES5.1'')]"

text \<open>The two literals of the line that strips comments, and the separator of \<^verbatim>\<open>split\<close>.\<close>

definition blockCommentLiteral :: string where
  "blockCommentLiteral =
     ''/'' @ bs # bs # ''/'' @ bs # bs # ''*['' @ bs # bs # ''s'' @ bs # bs # ''S]*?'' @
     bs # bs # ''*'' @ bs # bs # ''//g''"

definition lineCommentLiteral :: string where
  "lineCommentLiteral = ''/'' @ bs # bs # ''/'' @ bs # bs # ''/.*$/''"

definition lineSeparator :: string where
  "lineSeparator = [bs, CHR ''n'']"

text \<open>
  A module is compiled as a whole before any of it runs: one literal that the host does not
  accept makes the import of the module throw a \<^verbatim>\<open>SyntaxError\<close>.
\<close>

definition module_literals :: "string list" where
  "module_literals = map fst forbiddenPatterns @ [blockCommentLiteral, lineCommentLiteral]"

definition module_compiles :: bool where
  "module_compiles \<longleftrightarrow> list_all literal_accepted module_literals"

subsection \<open>The scan\<close>

text \<open>
  \<^verbatim>\<open>String.prototype.split\<close> with a non-empty separator: the pieces between its occurrences,
  found from left to right.  \<open>cur\<close> is the piece being read.
\<close>

function split_from :: "char \<Rightarrow> string \<Rightarrow> string \<Rightarrow> string \<Rightarrow> string list" where
  "split_from s ss cur [] = [cur]"
| "split_from s ss cur (c # cs) =
     (if c = s \<and> take (length ss) cs = ss
      then cur # split_from s ss [] (drop (length ss) cs)
      else split_from s ss (cur @ [c]) cs)"
  by pat_completeness auto
termination
  by (relation "measure (\<lambda>(s, ss, cur, xs). length xs)") auto

definition split :: "string \<Rightarrow> string \<Rightarrow> string list" where
  "split code separator =
     (case separator of [] \<Rightarrow> map (\<lambda>c. [c]) code | s # ss \<Rightarrow> split_from s ss [] code)"

text \<open>\<^verbatim>\<open>String.prototype.trim\<close>: white space and line terminators go from both ends.\<close>

definition is_space :: "char \<Rightarrow> bool" where
  "is_space c \<longleftrightarrow> (of_char c :: nat) \<in> {9, 10, 11, 12, 13, 32, 160}"

definition trim :: "string \<Rightarrow> string" where
  "trim s = rev (dropWhile is_space (rev (dropWhile is_space s)))"

text \<open>
  An object literal is the list of its properties in the order written.  The object that the
  scan pushes for a match:
  \<^verbatim>\<open>{ line: index + 1, message, snippet: line.trim() }\<close>.
\<close>

datatype property_value = Number nat | Text string

type_synonym js_object = "(string \<times> property_value) list"

definition violation :: "nat \<Rightarrow> string \<Rightarrow> string \<Rightarrow> js_object" where
  "violation index msg line =
     [(''line'', Number (index + 1)), (''message'', Text msg), (''snippet'', Text (trim line))]"

text \<open>
  The host's regular expression engine: \<open>regex_test lit s\<close> is \<^verbatim>\<open>lit.test(s)\<close> and
  \<open>regex_remove lit s\<close> is \<^verbatim>\<open>s.replace(lit, '')\<close>, for a literal \<open>lit\<close> given by its text.
\<close>

record regex_engine =
  regex_test :: "string \<Rightarrow> string \<Rightarrow> bool"
  regex_remove :: "string \<Rightarrow> string \<Rightarrow> string"

text \<open>The body of the outer \<^verbatim>\<open>forEach\<close>: the violations of one line, in the order of the table.\<close>

definition scan_line :: "regex_engine \<Rightarrow> nat \<Rightarrow> string \<Rightarrow> js_object list" where
  "scan_line eng index line =
     (let cleanLine = regex_remove eng lineCommentLiteral (regex_remove eng blockCommentLiteral line)
      in map (\<lambda>(pattern, msg). violation index msg line)
           (filter (\<lambda>(pattern, msg). regex_test eng pattern cleanLine) forbiddenPatterns))"

definition scan_lines :: "regex_engine \<Rightarrow> string \<Rightarrow> js_object list" where
  "scan_lines eng code =
     concat (map (\<lambda>(index, line). scan_line eng index line)
               (List.enumerate 0 (split code lineSeparator)))"

text \<open>
  \<^verbatim>\<open>validateES51Compliance(code)\<close> as a caller meets it: the function is there to call only
  if its module compiled.
\<close>

definition validateES51Compliance :: "regex_engine \<Rightarrow> string \<Rightarrow> js_error + js_object list" where
  "validateES51Compliance eng code =
     (if module_compiles then Inr (scan_lines eng code)
      else Inl (SyntaxError ''Invalid regular expression''))"

section \<open>Assembler\<close>

text \<open>
  Modelled from the spec: the Assembler (\<^verbatim>\<open>core/src/commands/build.js\<close>) is not among the
  sources.  Its library order is what the specification says of it: it resolves the load
  order by "applying the Fragment Sorter to the library set using the project's explicit
  order if present".
\<close>

definition assemblerLibraryOrder ::
  "(string \<Rightarrow> string \<Rightarrow> int) \<Rightarrow> string list \<Rightarrow> string list option \<Rightarrow> string list" where
  "assemblerLibraryOrder lc libraryFiles libraryOrder =
     sortLibraryFilesWithDependencies lc libraryFiles libraryOrder"

section \<open>Concrete inputs\<close>

text \<open>The library directory of the repository's loading-order test, numbered names only.\<close>

definition numbered_libraries :: "string list" where
  "numbered_libraries = [''10-tenth.js'', ''2-second.js'', ''1-first.js'']"

text \<open>A project whose \<^verbatim>\<open>project.json\<close> says \<^verbatim>\<open>"libraryOrder": []\<close>, and one without the field.\<close>

definition project_with_empty_order :: host where
  "project_with_empty_order =
     \<lparr> files = Map.empty, libsDir = Directory numbered_libraries,
       projectJson = Some (Some []), intrinsics = Map.empty, io_time = 1 \<rparr>"

definition project_without_order :: host where
  "project_without_order =
     \<lparr> files = Map.empty, libsDir = Directory numbered_libraries,
       projectJson = Some None, intrinsics = Map.empty, io_time = 1 \<rparr>"

text \<open>A project of two fragments: the first declares a function, the second calls it.\<close>

definition project_define_then_call :: host where
  "project_define_then_call =
     \<lparr> files = [''src/globalCode.js'' \<mapsto> Script [FunctionDecl ''greet''],
                 ''src/callScripts/main.js'' \<mapsto> Script [CallFunction ''greet'']],
       libsDir = Absent, projectJson = None, intrinsics = Map.empty, io_time = 1 \<rparr>"



text \<open>A project whose only fragment declares a variable and makes no HTTP request.\<close>

definition project_one_fragment :: host where
  "project_one_fragment =
     \<lparr> files = [''src/callScripts/main.js'' \<mapsto> Script [VarDecl ''x'']],
       libsDir = Absent, projectJson = None, intrinsics = Map.empty, io_time = 1 \<rparr>"

text \<open>\<^verbatim>\<open>new VocallsSimulator({})\<close> and \<^verbatim>\<open>new VocallsSimulator({httpMode: 'real'})\<close> at time 0.\<close>

definition default_session :: simulator where
  "default_session =
     VocallsSimulator \<lparr> opt_httpMode = None, opt_storageMode = None,
                        opt_environment = None, opt_verbose = False \<rparr> 0"

definition real_mode_session :: simulator where
  "real_mode_session =
     VocallsSimulator \<lparr> opt_httpMode = Some ''real'', opt_storageMode = None,
                        opt_environment = None, opt_verbose = False \<rparr> 0"

section \<open>Properties of the Fragment Sorter\<close>

lemma mset_array_insert: "mset (array_insert cmp x ys) = add_mset x (mset ys)"
  by (induction ys) auto

lemma mset_array_sort: "mset (array_sort cmp xs) = mset xs"
  by (induction xs) (auto simp: array_sort_def mset_array_insert)

lemma array_sort_Nil: "array_sort cmp [] = []"
  by (simp add: array_sort_def)

text \<open>
  The shape of the result in general: the explicit order as given, then the remaining file
  names in some order.
\<close>

lemma mset_sortLibraryFilesWithDependencies:
  "mset (sortLibraryFilesWithDependencies lc fileNames libraryOrder) =
     (case libraryOrder of
        None \<Rightarrow> mset fileNames
      | Some order \<Rightarrow> mset order + mset (filter (\<lambda>file. file \<notin> set order) fileNames))"
  by (auto simp: sortLibraryFilesWithDependencies_def sortLibraryFiles_def mset_array_sort
           split: option.splits)

lemma listed_names_are_the_order:
  assumes "distinct fileNames" "distinct order" "set order \<subseteq> set fileNames"
  shows "mset (filter (\<lambda>file. file \<in> set order) fileNames) = mset order"
proof -
  have "set (filter (\<lambda>file. file \<in> set order) fileNames) = set order"
    using assms(3) by auto
  moreover have "distinct (filter (\<lambda>file. file \<in> set order) fileNames)"
    using assms(1) by simp
  ultimately show ?thesis
    using assms(2) set_eq_iff_mset_eq_distinct by blast
qed

subsection \<open>Numbered names first\<close>




















subsection \<open>Permutations\<close>

text \<open>
  C7, as stated, fails: a name of the explicit order that is not a file name is part of the
  result.  For the file a.js and the explicit order b.js the result is b.js, a.js.
\<close>

theorem order_keeps_unknown_name:
  "sortLibraryFilesWithDependencies codeunit_compare [''a.js''] (Some [''b.js''])
     = [''b.js'', ''a.js''] \<and>
   mset (sortLibraryFilesWithDependencies codeunit_compare [''a.js''] (Some [''b.js'']))
     \<noteq> mset [''a.js'']"
  by (simp add: sortLibraryFilesWithDependencies_def sortLibraryFiles_def array_sort_def)

text \<open>
  C7, amended.  When the explicit order is absent or empty, or when the file names are distinct
  and the explicit order lists only file names, each at most once, the result is a permutation
  of the file names.
\<close>

theorem order_is_permutation:
  assumes "case libraryOrder of
             None \<Rightarrow> True
           | Some order \<Rightarrow>
               order = [] \<or> (distinct fileNames \<and> distinct order \<and> set order \<subseteq> set fileNames)"
  shows "mset (sortLibraryFilesWithDependencies lc fileNames libraryOrder) = mset fileNames"
proof (cases libraryOrder)
  case None
  then show ?thesis by (simp add: mset_sortLibraryFilesWithDependencies)
next
  case (Some order)
  show ?thesis
  proof (cases "order = []")
    case True
    with Some show ?thesis by (simp add: mset_sortLibraryFilesWithDependencies)
  next
    case False
    with Some assms have d: "distinct fileNames" "distinct order" "set order \<subseteq> set fileNames"
      by simp_all
    have "mset (sortLibraryFilesWithDependencies lc fileNames libraryOrder)
            = mset order + mset (filter (\<lambda>file. file \<notin> set order) fileNames)"
      using Some by (simp add: mset_sortLibraryFilesWithDependencies)
    also have "\<dots> = mset (filter (\<lambda>file. file \<in> set order) fileNames)
                     + mset (filter (\<lambda>file. file \<notin> set order) fileNames)"
      by (simp only: listed_names_are_the_order[OF d])
    also have "\<dots> = mset fileNames"
      by (simp only: mset_filter multiset_partition[symmetric])
    finally show ?thesis .
  qed
qed

theorem order_is_permutation_witness:
  "(distinct [''a.js'', ''2-b.js'', ''c.js''] \<and> distinct [''c.js''] \<and>
    set [''c.js''] \<subseteq> set [''a.js'', ''2-b.js'', ''c.js'']) \<and>
   mset (sortLibraryFilesWithDependencies codeunit_compare
           [''a.js'', ''2-b.js'', ''c.js''] (Some [''c.js'']))
     = mset [''a.js'', ''2-b.js'', ''c.js'']"
proof -
  have h: "distinct [''a.js'', ''2-b.js'', ''c.js''] \<and> distinct [''c.js''] \<and>
           set [''c.js''] \<subseteq> set [''a.js'', ''2-b.js'', ''c.js'']"
    by simp
  then have "case Some [''c.js''] of
               None \<Rightarrow> True
             | Some order \<Rightarrow>
                 order = [] \<or> (distinct [''a.js'', ''2-b.js'', ''c.js''] \<and> distinct order \<and>
                   set order \<subseteq> set [''a.js'', ''2-b.js'', ''c.js''])"
    by simp
  from order_is_permutation[OF this] h show ?thesis by blast
qed

subsection \<open>What the sorter does to its arguments\<close>

lemma sortLibraryFilesWithDependencies_store_result:
  assumes "fileNames < length h" "\<forall>r. libraryOrder = Some r \<longrightarrow> r < length h"
  shows "case sortLibraryFilesWithDependencies_store lc fileNames libraryOrder h of
           (r, h') \<Rightarrow>
             r < length h' \<and>
             h' ! r = sortLibraryFilesWithDependencies lc (h ! fileNames)
                        (map_option (\<lambda>r. h ! r) libraryOrder)"
  using assms
  by (auto simp: sortLibraryFilesWithDependencies_store_def sortLibraryFilesWithDependencies_def
        sortLibraryFiles_store_def sortLibraryFiles_def alloc_def Let_def nth_append
        split: option.splits)

text \<open>
  C8, as stated, fails: with an empty explicit order the array of file names that was passed in
  is sorted in place.  The store holds the file names 2-b.js, 1-a.js at reference 0 and the
  empty explicit order at reference 1; after the call reference 0 holds 1-a.js, 2-b.js.
\<close>

theorem order_sorts_its_argument_in_place:
  "snd (sortLibraryFilesWithDependencies_store codeunit_compare 0 (Some 1)
          [[''2-b.js'', ''1-a.js''], []]) ! 0
     = [''1-a.js'', ''2-b.js''] \<and>
   snd (sortLibraryFilesWithDependencies_store codeunit_compare 0 (Some 1)
          [[''2-b.js'', ''1-a.js''], []]) ! 0
     \<noteq> [[''2-b.js'', ''1-a.js''], []] ! 0"
  by (simp add: sortLibraryFilesWithDependencies_store_def sortLibraryFiles_store_def
        array_sort_def compareLibraryFiles_def startsWithNumber_def leadingDigits_def
        parseInt10_def digits_value_def to_number_def number_minus_def
        is_digit_def Let_def)

text \<open>
  C8, amended.  The sorter changes no array of the store other than the array of file names,
  and never the explicit order.  With a non-empty explicit order it leaves the file names as
  they are and returns a new array; with an empty or absent explicit order it sorts the array
  of file names in place and returns that same array.
\<close>

theorem order_store_frame:
  assumes "fileNames < length h" "\<forall>r. libraryOrder = Some r \<longrightarrow> r < length h"
  shows "case sortLibraryFilesWithDependencies_store lc fileNames libraryOrder h of
           (r, h') \<Rightarrow>
             length h \<le> length h' \<and>
             (\<forall>a < length h. a \<noteq> fileNames \<longrightarrow> h' ! a = h ! a) \<and>
             (\<forall>q. libraryOrder = Some q \<longrightarrow> h' ! q = h ! q) \<and>
             (if \<exists>q. libraryOrder = Some q \<and> h ! q \<noteq> []
              then h' ! fileNames = h ! fileNames \<and> length h \<le> r
              else r = fileNames \<and> h' ! fileNames = sortLibraryFiles lc (h ! fileNames))"
proof (cases libraryOrder)
  case None
  with assms show ?thesis
    by (simp add: sortLibraryFilesWithDependencies_store_def sortLibraryFiles_store_def
          sortLibraryFiles_def)
next
  case (Some q)
  with assms have q: "q < length h" by simp
  show ?thesis
  proof (cases "h ! q = []")
    case True
    have "h[fileNames := array_sort (compareLibraryFiles lc) (h ! fileNames)] ! q = h ! q"
      using True by (cases "q = fileNames") (simp_all add: assms(1) array_sort_Nil)
    with Some True assms(1) show ?thesis
      by (simp add: sortLibraryFilesWithDependencies_store_def sortLibraryFiles_store_def
            sortLibraryFiles_def)
  next
    case False
    with Some q assms(1) show ?thesis
      by (simp add: sortLibraryFilesWithDependencies_store_def sortLibraryFiles_store_def
            alloc_def Let_def nth_append)
  qed
qed

theorem order_store_frame_witness:
  "((0::nat) < length [[''2-b.js'', ''1-a.js''], [''x.js'']] \<and>
    (1::nat) < length [[''2-b.js'', ''1-a.js''], [''x.js'']]) \<and>
   (case sortLibraryFilesWithDependencies_store codeunit_compare 0 (Some 1)
           [[''2-b.js'', ''1-a.js''], [''x.js'']] of
      (r, h') \<Rightarrow> h' ! 0 = [''2-b.js'', ''1-a.js''] \<and> h' ! 1 = [''x.js''] \<and> 2 \<le> r)"
proof -
  have a: "(0::nat) < length [[''2-b.js'', ''1-a.js''], [''x.js'']]" by simp
  have b: "\<forall>r. Some (1::nat) = Some r \<longrightarrow> r < length [[''2-b.js'', ''1-a.js''], [''x.js'']]"
    by simp
  from order_store_frame[OF a b, of codeunit_compare] show ?thesis
    by (simp split: prod.splits)
qed

section \<open>Properties of the simulation engine\<close>

subsection \<open>The timeout of an evaluation\<close>










subsection \<open>Declarations stay\<close>


lemma hoist_keeps: "bindings sb x \<noteq> None \<Longrightarrow> bindings (hoist ss sb) x \<noteq> None"
  by (induction ss sb rule: hoist.induct) auto

lemma hoist_binds:
  "FunctionDecl x \<in> set ss \<or> VarDecl x \<in> set ss \<Longrightarrow> bindings (hoist ss sb) x \<noteq> None"
proof (induction ss sb rule: hoist.induct)
  case (2 f ss sb)
  show ?case
  proof (cases "f = x")
    case True
    have "bindings (sb\<lparr>bindings := (bindings sb)(f \<mapsto> Callable)\<rparr>) x \<noteq> None"
      using True by simp
    from hoist_keeps[OF this] show ?thesis by simp
  next
    case False
    with 2 show ?thesis by simp
  qed
next
  case (3 y ss sb)
  show ?case
  proof (cases "y = x")
    case True
    have "bindings (if bindings sb y = None then sb\<lparr>bindings := (bindings sb)(y \<mapsto> Undef)\<rparr> else sb) x \<noteq> None"
      using True by simp
    from hoist_keeps[OF this] show ?thesis by simp
  next
    case False
    with 3 show ?thesis by simp
  qed
qed simp_all

lemma exec_stmt_keeps:
  "exec_stmt h s (sim, sb, u) = Inr (sim', sb', u') \<Longrightarrow> bindings sb x \<noteq> None \<Longrightarrow> bindings sb' x \<noteq> None"
  by (cases s) (auto split: option.splits binding.splits if_splits)

lemma exec_stmts_keeps:
  "exec_stmts h ss (sim, sb, u) = Inr (sim', sb', u') \<Longrightarrow> bindings sb x \<noteq> None \<Longrightarrow> bindings sb' x \<noteq> None"
proof (induction ss arbitrary: sim sb u)
  case Nil
  then show ?case by simp
next
  case (Cons s ss)
  from Cons.prems(1) obtain sim1 sb1 u1 where
    step: "exec_stmt h s (sim, sb, u) = Inr (sim1, sb1, u1)" and
    rest: "exec_stmts h ss (sim1, sb1, u1) = Inr (sim', sb', u')"
    by (auto split: sum.splits)
  from exec_stmt_keeps[OF step Cons.prems(2)] Cons.IH[OF rest] show ?case by blast
qed

lemma loadScript_keeps:
  assumes "loadScript h p (sim, sb) = Inr (sim', sb')" "bindings sb x \<noteq> None"
  shows "bindings sb' x \<noteq> None"
proof (cases "files h p")
  case None
  with assms show ?thesis by (simp add: loadScript_def)
next
  case (Some code)
  show ?thesis
  proof (cases code)
    case (Unparsable m)
    with Some assms show ?thesis by (simp add: loadScript_def runInNewContext_def)
  next
    case (Script ss)
    with Some assms(1) obtain sim1 u1 where
      "exec_stmts h ss (sim, hoist ss sb, 0) = Inr (sim1, sb', u1)"
      by (auto simp: loadScript_def runInNewContext_def split: sum.splits)
    from exec_stmts_keeps[OF this hoist_keeps[OF assms(2)]] show ?thesis .
  qed
qed

lemma loadScripts_keeps:
  "loadScripts h ps (sim, sb) = Inr (sim', sb') \<Longrightarrow> bindings sb x \<noteq> None \<Longrightarrow> bindings sb' x \<noteq> None"
proof (induction ps arbitrary: sim sb)
  case Nil
  then show ?case by simp
next
  case (Cons p ps)
  from Cons.prems(1) obtain sim1 sb1 where
    step: "loadScript h p (sim, sb) = Inr (sim1, sb1)" and
    rest: "loadScripts h ps (sim1, sb1) = Inr (sim', sb')"
    by (auto split: sum.splits)
  from loadScript_keeps[OF step Cons.prems(2)] Cons.IH[OF rest] show ?case by blast
qed

lemma loadScript_declares:
  assumes "files h a = Some (Script ss)" "FunctionDecl x \<in> set ss \<or> VarDecl x \<in> set ss"
    "loadScript h a (sim, sb) = Inr (sim', sb')"
  shows "bindings sb' x \<noteq> None"
proof -
  from assms(1,3) obtain sim1 u1 where
    "exec_stmts h ss (sim, hoist ss sb, 0) = Inr (sim1, sb', u1)"
    by (auto simp: loadScript_def runInNewContext_def split: sum.splits)
  from exec_stmts_keeps[OF this hoist_binds[OF assms(2)]] show ?thesis .
qed

text \<open>
  C4.  A function or variable that a fragment declares can be read by the fragments evaluated
  after it in the same run.  A run of a fragment that declares a function and then a fragment
  that calls it loads both; the run in the other order fails with an error that names the
  calling fragment.
\<close>

theorem earlier_declarations_are_visible:
  "(files h a = Some (Script ss) \<and> (FunctionDecl x \<in> set ss \<or> VarDecl x \<in> set ss) \<and>
    loadScripts h (a # later) (sim, sb) = Inr (sim1, sb1)
      \<longrightarrow> exec_stmts h [ReadVar x] (sim1, sb1, 0) = Inr (sim1, sb1, 0)) \<and>
   (files h a = Some (Script [FunctionDecl f]) \<and> files h b = Some (Script [CallFunction f]) \<and>
    resolve h sb f = None
      \<longrightarrow> loadScripts h [a, b] (sim, sb) =
            Inr (sim\<lparr>filesLoaded := filesLoaded sim + 2\<rparr>,
                 sb\<lparr>bindings := (bindings sb)(f \<mapsto> Callable)\<rparr>) \<and>
          loadScripts h [b, a] (sim, sb) =
            Inl (Error (''Error in '' @ b @ '': '' @ f @ '' is not defined'')))"
proof (intro conjI impI)
  assume A: "files h a = Some (Script ss) \<and> (FunctionDecl x \<in> set ss \<or> VarDecl x \<in> set ss) \<and>
    loadScripts h (a # later) (sim, sb) = Inr (sim1, sb1)"
  then obtain sim0 sb0 where
    step: "loadScript h a (sim, sb) = Inr (sim0, sb0)" and
    rest: "loadScripts h later (sim0, sb0) = Inr (sim1, sb1)"
    by (auto split: sum.splits)
  from A have "files h a = Some (Script ss)"
    and "FunctionDecl x \<in> set ss \<or> VarDecl x \<in> set ss" by simp_all
  from loadScript_declares[OF this step] have "bindings sb0 x \<noteq> None" .
  with rest have "bindings sb1 x \<noteq> None" by (rule loadScripts_keeps)
  then show "exec_stmts h [ReadVar x] (sim1, sb1, 0) = Inr (sim1, sb1, 0)"
    by (auto simp: resolve_def)
next
  assume B: "files h a = Some (Script [FunctionDecl f]) \<and> files h b = Some (Script [CallFunction f]) \<and>
    resolve h sb f = None"
  then show "loadScripts h [a, b] (sim, sb) =
            Inr (sim\<lparr>filesLoaded := filesLoaded sim + 2\<rparr>,
                 sb\<lparr>bindings := (bindings sb)(f \<mapsto> Callable)\<rparr>)"
    by (simp add: loadScript_def runInNewContext_def resolve_def)
  from B show "loadScripts h [b, a] (sim, sb) =
            Inl (Error (''Error in '' @ b @ '': '' @ f @ '' is not defined''))"
    by (simp add: loadScript_def runInNewContext_def)
qed


theorem earlier_declarations_are_visible_witness:
  "(files project_define_then_call ''src/globalCode.js'' = Some (Script [FunctionDecl ''greet'']) \<and>
    files project_define_then_call ''src/callScripts/main.js''
      = Some (Script [CallFunction ''greet'']) \<and>
    resolve project_define_then_call (createSandbox default_session) ''greet'' = None) \<and>
   loadScripts project_define_then_call [''src/globalCode.js'', ''src/callScripts/main.js'']
       (default_session, createSandbox default_session) =
     Inr (default_session\<lparr>filesLoaded := filesLoaded default_session + 2\<rparr>,
          (createSandbox default_session)
            \<lparr>bindings := (bindings (createSandbox default_session))(''greet'' \<mapsto> Callable)\<rparr>) \<and>
   loadScripts project_define_then_call [''src/callScripts/main.js'', ''src/globalCode.js'']
       (default_session, createSandbox default_session) =
     Inl (Error (''Error in '' @ ''src/callScripts/main.js'' @ '': '' @ ''greet'' @
                 '' is not defined'')) \<and>
   exec_stmts project_define_then_call [ReadVar ''greet'']
       (default_session\<lparr>filesLoaded := filesLoaded default_session + 2\<rparr>,
        (createSandbox default_session)
          \<lparr>bindings := (bindings (createSandbox default_session))(''greet'' \<mapsto> Callable)\<rparr>, 0) =
     Inr (default_session\<lparr>filesLoaded := filesLoaded default_session + 2\<rparr>,
          (createSandbox default_session)
            \<lparr>bindings := (bindings (createSandbox default_session))(''greet'' \<mapsto> Callable)\<rparr>, 0)"
proof -
  have h: "files project_define_then_call ''src/globalCode.js''
             = Some (Script [FunctionDecl ''greet'']) \<and>
           files project_define_then_call ''src/callScripts/main.js''
             = Some (Script [CallFunction ''greet'']) \<and>
           resolve project_define_then_call (createSandbox default_session) ''greet'' = None"
    by (simp add: project_define_then_call_def resolve_def createSandbox_def
          builtin_constructor_def class_constructor_def)
  have g: "FunctionDecl ''greet'' \<in> set [FunctionDecl ''greet'']" by simp
  note t = earlier_declarations_are_visible[where h = project_define_then_call
      and a = "''src/globalCode.js''" and ss = "[FunctionDecl ''greet'']" and x = "''greet''"
      and later = "[''src/callScripts/main.js'']"
      and sim = default_session and sb = "createSandbox default_session"
      and ?sim1.0 = "default_session\<lparr>filesLoaded := filesLoaded default_session + 2\<rparr>"
      and ?sb1.0 = "(createSandbox default_session)
         \<lparr>bindings := (bindings (createSandbox default_session))(''greet'' \<mapsto> Callable)\<rparr>"
      and f = "''greet''" and b = "''src/callScripts/main.js''"]
  from t h g show ?thesis by blast
qed

text \<open>
  C6, as stated, fails: the mode is looked at only when a request is made.  A session
  configured with the mode real whose fragment makes no request returns its report.
\<close>

theorem real_mode_session_completes:
  "httpMode real_mode_session = ''real'' \<and>
   (case execute project_one_fragment real_mode_session of
      Inl e \<Rightarrow> False
    | Inr (rep, sim) \<Rightarrow> report_filesLoaded rep = 1 \<and> report_httpRequests rep = 0)"
  by (simp add: execute_def loadProjectFiles_def loadOrder_def loadScript_def
        runInNewContext_def project_one_fragment_def real_mode_session_def
        VocallsSimulator_def or_default_def Let_def)

text \<open>
  C6, amended.  In a session whose mode is not stub (real, for one), every HTTP request is
  counted and logged and then fails with the error "Real HTTP mode not implemented in this
  demo", as a rejected promise; it never gets the stub response.
\<close>

theorem real_mode_request_is_rejected:
  assumes "httpMode sim \<noteq> ''stub''"
  shows "handleHttpRequest config sim =
     (Rejected (Error ''Real HTTP mode not implemented in this demo''),
      sim\<lparr> stats_httpRequests := stats_httpRequests sim + 1,
           httpRequests := httpRequests sim @
             [\<lparr> req_timestamp = now sim, req_method = or_default (cfg_method config) ''GET'',
                req_url = cfg_url config, req_headers = cfg_headers config,
                req_body = cfg_body config \<rparr>] \<rparr>)"
  using assms by (simp add: handleHttpRequest_def Let_def)

theorem real_mode_request_is_rejected_witness:
  "httpMode real_mode_session \<noteq> ''stub'' \<and>
   fst (handleHttpRequest
          \<lparr> cfg_method = None, cfg_url = ''https://api.example/lines'',
            cfg_headers = Undefined, cfg_body = Undefined \<rparr> real_mode_session)
     = Rejected (Error ''Real HTTP mode not implemented in this demo'') \<and>
   stats_httpRequests (snd (handleHttpRequest
          \<lparr> cfg_method = None, cfg_url = ''https://api.example/lines'',
            cfg_headers = Undefined, cfg_body = Undefined \<rparr> real_mode_session)) = 1"
proof -
  have h: "httpMode real_mode_session \<noteq> ''stub''"
    by (simp add: real_mode_session_def VocallsSimulator_def or_default_def)
  have z: "stats_httpRequests real_mode_session = 0"
    by (simp add: real_mode_session_def VocallsSimulator_def)
  from real_mode_request_is_rejected[OF h] h z show ?thesis by simp
qed

text \<open>
  C10.  In memory mode, writing a non-empty string under a key answers with success and no
  error, and reading the key next answers with success, the string written and no error; the
  counter of storage operations goes up by one with each of the two calls.
\<close>

theorem storage_write_then_read:
  assumes "storageMode sim = ''memory''" "v \<noteq> []"
  shows "handleStorageWrite k (Str v) sim =
           (\<lparr> write_success = True, write_error = None \<rparr>,
            sim\<lparr> storageOps := storageOps sim + 1,
                 memoryStorage := (memoryStorage sim)(k \<mapsto> v) \<rparr>) \<and>
         handleStorageRead k (snd (handleStorageWrite k (Str v) sim)) =
           (\<lparr> read_success = True, read_text = Some v, read_error = None \<rparr>,
            sim\<lparr> storageOps := storageOps sim + 1 + 1,
                 memoryStorage := (memoryStorage sim)(k \<mapsto> v) \<rparr>)"
  using assms by (simp add: handleStorageWrite_def handleStorageRead_def Let_def)

theorem storage_write_then_read_witness:
  "(storageMode default_session = ''memory'' \<and> ''hello'' \<noteq> []) \<and>
   handleStorageWrite ''state.json'' (Str ''hello'') default_session =
     (\<lparr> write_success = True, write_error = None \<rparr>,
      default_session\<lparr> storageOps := storageOps default_session + 1,
           memoryStorage := (memoryStorage default_session)(''state.json'' \<mapsto> ''hello'') \<rparr>) \<and>
   handleStorageRead ''state.json''
       (snd (handleStorageWrite ''state.json'' (Str ''hello'') default_session)) =
     (\<lparr> read_success = True, read_text = Some ''hello'', read_error = None \<rparr>,
      default_session\<lparr> storageOps := storageOps default_session + 1 + 1,
           memoryStorage := (memoryStorage default_session)(''state.json'' \<mapsto> ''hello'') \<rparr>)"
proof -
  have h: "storageMode default_session = ''memory''"
    by (simp add: default_session_def VocallsSimulator_def or_default_def)
  have n: "''hello'' \<noteq> []" by simp
  from storage_write_then_read[OF h n, of "''state.json''"] h n show ?thesis by blast
qed

section \<open>Properties of the scanner\<close>

text \<open>
  Seven literals of the table end in an escaped backslash followed by an opening parenthesis,
  which opens a group that is never closed, and the two literals that strip comments end at
  their second slash, before the text meant to be their body.
\<close>

lemma module_does_not_compile: "\<not> module_compiles"
  by (simp add: module_compiles_def module_literals_def forbiddenPatterns_def
        literal_accepted_def)

text \<open>
  The separator of \<^verbatim>\<open>split\<close> is a backslash followed by the letter n, not a line feed: a
  text of two lines is one piece.
\<close>

lemma split_keeps_line_feeds:
  "split (''var a;'' @ [CHR 0x0A] @ ''const x = 1;'') lineSeparator
     = [''var a;'' @ [CHR 0x0A] @ ''const x = 1;'']"
  by (simp add: split_def lineSeparator_def)

text \<open>
  C2 fails on the code.  For the one-line text \<^verbatim>\<open>const x = 1;\<close> the claim asks for a
  violation with line 1; the call returns no violation, because the module of
  \<^verbatim>\<open>validateES51Compliance\<close> is rejected with a \<^verbatim>\<open>SyntaxError\<close> when it is imported,
  whatever the host's regular expression engine does with the literals it accepts.
\<close>

theorem validateES51Compliance_reports_nothing:
  "validateES51Compliance eng ''const x = 1;'' = Inl (SyntaxError ''Invalid regular expression'')"
  by (simp add: validateES51Compliance_def module_does_not_compile)

section \<open>The library order of the simulation and of the Assembler\<close>

text \<open>
  C1 fails on the code.  \<^verbatim>\<open>loadProjectFiles\<close> does not call the sorter.  With
  \<^verbatim>\<open>"libraryOrder": []\<close> in \<^verbatim>\<open>project.json\<close> the simulation loads no library at all, where
  the Assembler sorts the whole directory; without the field the simulation sorts the names by
  code units, 10-tenth.js before 2-second.js, where the Assembler sorts by the value of the
  leading digits.
\<close>

theorem simulator_library_order_differs:
  "simulatorLibraryOrder project_with_empty_order = [] \<and>
   assemblerLibraryOrder lc numbered_libraries (Some [])
     = [''1-first.js'', ''2-second.js'', ''10-tenth.js''] \<and>
   simulatorLibraryOrder project_without_order
     = [''1-first.js'', ''10-tenth.js'', ''2-second.js''] \<and>
   assemblerLibraryOrder lc numbered_libraries None
     = [''1-first.js'', ''2-second.js'', ''10-tenth.js'']"
  by (simp add: simulatorLibraryOrder_def loadProjectConfig_def getLibraryFiles_def
        project_with_empty_order_def project_without_order_def numbered_libraries_def
        assemblerLibraryOrder_def sortLibraryFilesWithDependencies_def sortLibraryFiles_def
        array_sort_def compareLibraryFiles_def startsWithNumber_def leadingDigits_def
        parseInt10_def digits_value_def to_number_def number_minus_def
        is_digit_def Let_def endsWith_def)

end
